theory Spec2Isabelle
  imports Main
begin

section \<open>The database of codigo\_sqlite\_colab.py\<close>

text \<open>
  The program keeps its whole state in one SQLite file and every function opens a
  connection, runs a few statements and closes it. The state is therefore the content
  of the tables, and a function is a map from the tables before to the tables after,
  together with the value the Python function returns.

  Three tables take part in enrolment: \<^verbatim>\<open>eventos\<close>, \<^verbatim>\<open>inscricoes\<close> and
  \<^verbatim>\<open>lista_espera\<close>. Of \<^verbatim>\<open>eventos\<close> only the columns \<^verbatim>\<open>id\<close>,
  \<^verbatim>\<open>capacidade_maxima\<close> and \<^verbatim>\<open>vagas_disponiveis\<close> are read or written by the
  enrolment functions; the descriptive columns (title, place, dates, price, status) are
  left out. Foreign keys are declared in the schema but SQLite does not enforce them
  unless \<^verbatim>\<open>PRAGMA foreign_keys\<close> is switched on, which the program never does, so a
  participant id is just an integer. Columns are prefixed by their table
  (\<open>e_\<close>, \<open>i_\<close>, \<open>l_\<close>) because the three tables share column names.
\<close>

record evento =
  e_id :: int
  e_capacidade_maxima :: int
  e_vagas_disponiveis :: int

text \<open>The \<^verbatim>\<open>CHECK(status IN ('confirmada', 'cancelada', 'presente'))\<close> of \<^verbatim>\<open>inscricoes\<close>.\<close>

datatype status = Confirmada | Cancelada | Presente

record inscricao =
  i_id :: int
  i_participante_id :: int
  i_evento_id :: int
  i_status :: status
  i_codigo_confirmacao :: string
  i_presente :: bool
  i_data_checkin :: "string option"

record espera =
  l_id :: int
  l_participante_id :: int
  l_evento_id :: int
  l_posicao :: int
  l_notificado :: bool

text \<open>
  Rows are kept in insertion order. The three \<open>seq_\<close> fields are the
  \<^verbatim>\<open>AUTOINCREMENT\<close> counters of the tables (the last row id handed out).
\<close>

record banco =
  eventos :: "evento list"
  inscricoes :: "inscricao list"
  lista_espera :: "espera list"
  seq_eventos :: int
  seq_inscricoes :: int
  seq_lista_espera :: int

text \<open>The state right after \<^verbatim>\<open>criar_tabelas()\<close> on a fresh file.\<close>

definition banco_vazio :: banco where
  "banco_vazio = \<lparr>eventos = [], inscricoes = [], lista_espera = [],
     seq_eventos = 0, seq_inscricoes = 0, seq_lista_espera = 0\<rparr>"

subsection \<open>SQL statements\<close>

text \<open>
  \<^verbatim>\<open>UPDATE t SET ... WHERE c\<close> rewrites every row that satisfies \<open>c\<close>;
  \<^verbatim>\<open>cursor.rowcount\<close> is the number of such rows.
\<close>

definition sql_update :: "('r \<Rightarrow> bool) \<Rightarrow> ('r \<Rightarrow> 'r) \<Rightarrow> 'r list \<Rightarrow> 'r list" where
  "sql_update c f rows = map (\<lambda>r. if c r then f r else r) rows"

definition rowcount :: "('r \<Rightarrow> bool) \<Rightarrow> 'r list \<Rightarrow> nat" where
  "rowcount c rows = length (filter c rows)"

text \<open>\<^verbatim>\<open>SELECT COALESCE(MAX(posicao), 0) + 1 FROM lista_espera WHERE evento_id = ?\<close>\<close>

definition proxima_posicao :: "espera list \<Rightarrow> int \<Rightarrow> int" where
  "proxima_posicao rows evento =
     (case filter (\<lambda>l. l_evento_id l = evento) rows of
        [] \<Rightarrow> 0
      | l # ls \<Rightarrow> foldl max (l_posicao l) (map l_posicao ls)) + 1"

text \<open>
  The two \<^verbatim>\<open>UNIQUE\<close> constraints of \<^verbatim>\<open>inscricoes\<close>, on
  \<^verbatim>\<open>(participante_id, evento_id)\<close> and on \<^verbatim>\<open>codigo_confirmacao\<close>. Neither looks
  at the status of the row that is already there. An \<^verbatim>\<open>INSERT\<close> that breaks one of
  them raises \<^verbatim>\<open>sqlite3.IntegrityError\<close> and inserts nothing.
\<close>

definition par_inscrito :: "inscricao list \<Rightarrow> int \<Rightarrow> int \<Rightarrow> bool" where
  "par_inscrito rows participante evento =
     (\<exists>i \<in> set rows. i_participante_id i = participante \<and> i_evento_id i = evento)"

definition codigo_usado :: "inscricao list \<Rightarrow> string \<Rightarrow> bool" where
  "codigo_usado rows codigo = (\<exists>i \<in> set rows. i_codigo_confirmacao i = codigo)"

text \<open>The \<^verbatim>\<open>UNIQUE(participante_id, evento_id)\<close> of \<^verbatim>\<open>lista_espera\<close>.\<close>

definition par_em_espera :: "espera list \<Rightarrow> int \<Rightarrow> int \<Rightarrow> bool" where
  "par_em_espera rows participante evento =
     (\<exists>l \<in> set rows. l_participante_id l = participante \<and> l_evento_id l = evento)"

subsection \<open>criar\_evento\<close>

text \<open>
  Inserts the event with \<^verbatim>\<open>vagas_disponiveis = capacidade_maxima\<close> and returns the new
  row id. No check is made on the capacity.
\<close>

definition criar_evento :: "banco \<Rightarrow> int \<Rightarrow> int \<times> banco" where
  "criar_evento db capacidade =
     (let novo = seq_eventos db + 1 in
      (novo, db\<lparr>eventos := eventos db @
                   [\<lparr>e_id = novo, e_capacidade_maxima = capacidade,
                     e_vagas_disponiveis = capacidade\<rparr>],
                 seq_eventos := novo\<rparr>))"

subsection \<open>inscrever\_participante\<close>

text \<open>
  The function has four ways out. Two of them return \<^verbatim>\<open>None\<close> and differ only in the
  message printed: the event was not found, or the \<^verbatim>\<open>INSERT\<close> raised
  \<^verbatim>\<open>IntegrityError\<close> (message: already enrolled in this event). The third returns
  the string \<^verbatim>\<open>'lista_espera'\<close>, the fourth the id of the new row.
\<close>

datatype retorno_inscricao =
    Evento_nao_encontrado
  | Sem_vagas
  | Ja_inscrito
  | Inscrito int

datatype valor_python = PNone | PStr string | PInt int

fun valor_retornado :: "retorno_inscricao \<Rightarrow> valor_python" where
  "valor_retornado Evento_nao_encontrado = PNone"
| "valor_retornado Sem_vagas = PStr ''lista_espera''"
| "valor_retornado Ja_inscrito = PNone"
| "valor_retornado (Inscrito n) = PInt n"

text \<open>
  \<open>codigo\<close> is the value \<^verbatim>\<open>gerar_codigo_confirmacao()\<close> returns in this call (ten
  random characters); it is an input of the model. The availability test comes first,
  the constraints are only met at the \<^verbatim>\<open>INSERT\<close>.
\<close>

definition inscrever_participante ::
    "banco \<Rightarrow> int \<Rightarrow> int \<Rightarrow> string \<Rightarrow> retorno_inscricao \<times> banco" where
  "inscrever_participante db participante evento codigo =
     (case find (\<lambda>e. e_id e = evento) (eventos db) of
        None \<Rightarrow> (Evento_nao_encontrado, db)
      | Some resultado \<Rightarrow>
          if e_vagas_disponiveis resultado \<le> 0 then (Sem_vagas, db)
          else if par_inscrito (inscricoes db) participante evento
                  \<or> codigo_usado (inscricoes db) codigo
          then (Ja_inscrito, db)
          else
            (let novo = seq_inscricoes db + 1 in
             (Inscrito novo,
              db\<lparr>inscricoes := inscricoes db @
                    [\<lparr>i_id = novo, i_participante_id = participante,
                      i_evento_id = evento, i_status = Confirmada,
                      i_codigo_confirmacao = codigo, i_presente = False,
                      i_data_checkin = None\<rparr>],
                  seq_inscricoes := novo,
                  eventos := sql_update (\<lambda>e. e_id e = evento)
                    (\<lambda>e. e\<lparr>e_vagas_disponiveis := e_vagas_disponiveis e - 1\<rparr>)
                    (eventos db)\<rparr>)))"

subsection \<open>adicionar\_lista\_espera\<close>

definition adicionar_lista_espera :: "banco \<Rightarrow> int \<Rightarrow> int \<Rightarrow> bool \<times> banco" where
  "adicionar_lista_espera db participante evento =
     (let posicao = proxima_posicao (lista_espera db) evento in
      if par_em_espera (lista_espera db) participante evento then (False, db)
      else
        (let novo = seq_lista_espera db + 1 in
         (True,
          db\<lparr>lista_espera := lista_espera db @
                [\<lparr>l_id = novo, l_participante_id = participante,
                  l_evento_id = evento, l_posicao = posicao, l_notificado = False\<rparr>],
              seq_lista_espera := novo\<rparr>)))"

subsection \<open>cancelar\_inscricao\<close>

definition inscricao_confirmada_de :: "int \<Rightarrow> int \<Rightarrow> inscricao \<Rightarrow> bool" where
  "inscricao_confirmada_de participante evento i =
     (i_participante_id i = participante \<and> i_evento_id i = evento
      \<and> i_status i = Confirmada)"

text \<open>
  One \<^verbatim>\<open>UPDATE\<close> on \<^verbatim>\<open>inscricoes\<close>; when it changed a row, one \<^verbatim>\<open>UPDATE\<close> on
  \<^verbatim>\<open>eventos\<close>. The function touches no other table.
\<close>

definition cancelar_inscricao :: "banco \<Rightarrow> int \<Rightarrow> int \<Rightarrow> bool \<times> banco" where
  "cancelar_inscricao db participante evento =
     (if rowcount (inscricao_confirmada_de participante evento) (inscricoes db) > 0
      then
        (True,
         db\<lparr>inscricoes := sql_update (inscricao_confirmada_de participante evento)
               (\<lambda>i. i\<lparr>i_status := Cancelada\<rparr>) (inscricoes db),
             eventos := sql_update (\<lambda>e. e_id e = evento)
               (\<lambda>e. e\<lparr>e_vagas_disponiveis := e_vagas_disponiveis e + 1\<rparr>)
               (eventos db)\<rparr>)
      else (False, db))"

subsection \<open>realizar\_checkin\<close>

definition inscricao_confirmada_com :: "string \<Rightarrow> inscricao \<Rightarrow> bool" where
  "inscricao_confirmada_com codigo i =
     (i_codigo_confirmacao i = codigo \<and> i_status i = Confirmada)"

text \<open>
  \<open>agora\<close> is the value of \<^verbatim>\<open>CURRENT_TIMESTAMP\<close> in this call. There is one
  \<^verbatim>\<open>else\<close> branch for every way the \<^verbatim>\<open>UPDATE\<close> can match nothing; it prints one
  message (invalid code or check-in already done) and returns \<^verbatim>\<open>False\<close>.
\<close>

definition realizar_checkin :: "banco \<Rightarrow> string \<Rightarrow> string \<Rightarrow> bool \<times> banco" where
  "realizar_checkin db codigo agora =
     (if rowcount (inscricao_confirmada_com codigo) (inscricoes db) > 0
      then
        (True,
         db\<lparr>inscricoes := sql_update (inscricao_confirmada_com codigo)
               (\<lambda>i. i\<lparr>i_presente := True, i_status := Presente,
                      i_data_checkin := Some agora\<rparr>) (inscricoes db)\<rparr>)
      else (False, db))"

subsection \<open>Sequences of calls\<close>

datatype chamada =
    Criar_evento int
  | Inscrever int int string
  | Entrar_lista_espera int int
  | Cancelar int int
  | Checkin string string

fun executar :: "banco \<Rightarrow> chamada \<Rightarrow> banco" where
  "executar db (Criar_evento capacidade) = snd (criar_evento db capacidade)"
| "executar db (Inscrever p e codigo) = snd (inscrever_participante db p e codigo)"
| "executar db (Entrar_lista_espera p e) = snd (adicionar_lista_espera db p e)"
| "executar db (Cancelar p e) = snd (cancelar_inscricao db p e)"
| "executar db (Checkin codigo agora) = snd (realizar_checkin db codigo agora)"

definition executar_todas :: "banco \<Rightarrow> chamada list \<Rightarrow> banco" where
  "executar_todas db cs = foldl executar db cs"

subsection \<open>Derived quantities\<close>

text \<open>
  The number of places taken, as \<^verbatim>\<open>eventos_por_categoria\<close> computes it:
  \<^verbatim>\<open>capacidade_maxima - vagas_disponiveis\<close>.
\<close>

definition confirmed_count :: "evento \<Rightarrow> int" where
  "confirmed_count ev = e_capacidade_maxima ev - e_vagas_disponiveis ev"

text \<open>An enrolment holds a place when it is confirmed or attended.\<close>

definition ocupa_vaga :: "int \<Rightarrow> inscricao \<Rightarrow> bool" where
  "ocupa_vaga evento i =
     (i_evento_id i = evento \<and> (i_status i = Confirmada \<or> i_status i = Presente))"

definition inscricoes_ativas :: "banco \<Rightarrow> int \<Rightarrow> int" where
  "inscricoes_ativas db evento = int (length (filter (ocupa_vaga evento) (inscricoes db)))"

subsection \<open>Invariants of the tables\<close>

text \<open>The key of the \<^verbatim>\<open>UNIQUE(participante_id, evento_id)\<close> constraint.\<close>

definition par :: "inscricao \<Rightarrow> int \<times> int" where
  "par i = (i_participante_id i, i_evento_id i)"

definition limitado :: "int \<Rightarrow> int list \<Rightarrow> bool" where
  "limitado n xs \<longleftrightarrow> (\<forall>x \<in> set xs. x \<le> n)"

text \<open>
  What the schema and the counters guarantee: event ids are distinct (primary key) and
  were handed out by the counter, every enrolment names an event id that was handed
  out, and no two enrolments share a (participant, event) pair.
\<close>

definition chaves_ok :: "banco \<Rightarrow> bool" where
  "chaves_ok db \<longleftrightarrow>
     distinct (map e_id (eventos db))
     \<and> limitado (seq_eventos db) (map e_id (eventos db))
     \<and> limitado (seq_eventos db) (map i_evento_id (inscricoes db))
     \<and> distinct (map par (inscricoes db))"

text \<open>The free places of every event are its capacity minus the places taken.\<close>

definition vagas_ok :: "banco \<Rightarrow> bool" where
  "vagas_ok db \<longleftrightarrow>
     (\<forall>ev \<in> set (eventos db).
        e_vagas_disponiveis ev = e_capacidade_maxima ev - inscricoes_ativas db (e_id ev)
        \<and> (0 \<le> e_capacidade_maxima ev \<longrightarrow> 0 \<le> e_vagas_disponiveis ev))"

subsection \<open>A run of the program\<close>

text \<open>
  One event with two places; three participants try to enrol, the third is sent to the
  waiting list and joins it; the second checks in and the first cancels.
  \<open>banco_cenario\<close> is the content of the tables at the end.
\<close>

definition cenario :: "chamada list" where
  "cenario = [Criar_evento 2,
     Inscrever 10 1 ''AAAAAAAAA1'', Inscrever 11 1 ''AAAAAAAAA2'',
     Inscrever 12 1 ''AAAAAAAAA3'', Entrar_lista_espera 12 1,
     Checkin ''AAAAAAAAA2'' ''2024-05-01 19:00:00'', Cancelar 10 1]"

definition banco_cenario :: banco where
  "banco_cenario = \<lparr>
     eventos = [\<lparr>e_id = 1, e_capacidade_maxima = 2, e_vagas_disponiveis = 1\<rparr>],
     inscricoes =
       [\<lparr>i_id = 1, i_participante_id = 10, i_evento_id = 1, i_status = Cancelada,
         i_codigo_confirmacao = ''AAAAAAAAA1'', i_presente = False, i_data_checkin = None\<rparr>,
        \<lparr>i_id = 2, i_participante_id = 11, i_evento_id = 1, i_status = Presente,
         i_codigo_confirmacao = ''AAAAAAAAA2'', i_presente = True,
         i_data_checkin = Some ''2024-05-01 19:00:00''\<rparr>],
     lista_espera =
       [\<lparr>l_id = 1, l_participante_id = 12, l_evento_id = 1, l_posicao = 1,
         l_notificado = False\<rparr>],
     seq_eventos = 1, seq_inscricoes = 2, seq_lista_espera = 1\<rparr>"

text \<open>The key under which two waiting-list entries would share a position.\<close>

definition chave_posicao :: "espera \<Rightarrow> int \<times> int" where
  "chave_posicao l = (l_evento_id l, l_posicao l)"

text \<open>
  A code is spent when some enrolment carries it and no confirmed enrolment does: a
  check-in with it can no longer match a row.
\<close>

definition codigo_gasto :: "string \<Rightarrow> banco \<Rightarrow> bool" where
  "codigo_gasto c db \<longleftrightarrow>
     codigo_usado (inscricoes db) c
     \<and> \<not> (\<exists>i \<in> set (inscricoes db). inscricao_confirmada_com c i)"

text \<open>
  A second run: two events, the first one filled by two enrolments, a third participant
  turned away from it and put on its waiting list. \<open>banco_dois_eventos\<close> is the
  content of the tables at the end.
\<close>

definition cenario_dois :: "chamada list" where
  "cenario_dois = [Criar_evento 2, Criar_evento 5,
     Inscrever 10 1 ''AAAAAAAAA1'', Inscrever 11 1 ''AAAAAAAAA2'',
     Inscrever 10 2 ''AAAAAAAAA3'', Inscrever 12 1 ''AAAAAAAAA4'',
     Entrar_lista_espera 12 1]"

definition banco_dois_eventos :: banco where
  "banco_dois_eventos = \<lparr>
     eventos = [\<lparr>e_id = 1, e_capacidade_maxima = 2, e_vagas_disponiveis = 0\<rparr>,
                \<lparr>e_id = 2, e_capacidade_maxima = 5, e_vagas_disponiveis = 4\<rparr>],
     inscricoes =
       [\<lparr>i_id = 1, i_participante_id = 10, i_evento_id = 1, i_status = Confirmada,
         i_codigo_confirmacao = ''AAAAAAAAA1'', i_presente = False, i_data_checkin = None\<rparr>,
        \<lparr>i_id = 2, i_participante_id = 11, i_evento_id = 1, i_status = Confirmada,
         i_codigo_confirmacao = ''AAAAAAAAA2'', i_presente = False, i_data_checkin = None\<rparr>,
        \<lparr>i_id = 3, i_participante_id = 10, i_evento_id = 2, i_status = Confirmada,
         i_codigo_confirmacao = ''AAAAAAAAA3'', i_presente = False, i_data_checkin = None\<rparr>],
     lista_espera =
       [\<lparr>l_id = 1, l_participante_id = 12, l_evento_id = 1, l_posicao = 1,
         l_notificado = False\<rparr>],
     seq_eventos = 2, seq_inscricoes = 3, seq_lista_espera = 1\<rparr>"

section \<open>Auxiliary facts\<close>

lemma limitado_Nil: "limitado n []"
  by (simp add: limitado_def)

lemma limitado_snoc: "limitado n (xs @ [x]) \<longleftrightarrow> limitado n xs \<and> x \<le> n"
  by (auto simp: limitado_def)

lemma limitado_mono: "limitado n xs \<Longrightarrow> n \<le> m \<Longrightarrow> limitado m xs"
  by (force simp: limitado_def)

lemma limitado_D: "limitado n xs \<Longrightarrow> x \<in> set xs \<Longrightarrow> x \<le> n"
  by (simp add: limitado_def)

lemma find_id_unico:
  "distinct (map e_id evs) \<Longrightarrow> ev \<in> set evs \<Longrightarrow> find (\<lambda>e. e_id e = e_id ev) evs = Some ev"
  by (induction evs) (auto simp: image_iff)

lemma find_Some_D: "find P xs = Some x \<Longrightarrow> x \<in> set xs \<and> P x"
  by (induction xs) (auto split: if_splits)

lemma rowcount_zero_iff: "rowcount c rows = 0 \<longleftrightarrow> (\<forall>r \<in> set rows. \<not> c r)"
  by (simp add: rowcount_def filter_empty_conv)

lemma rowcount_pos_iff: "0 < rowcount c rows \<longleftrightarrow> (\<exists>r \<in> set rows. c r)"
  using rowcount_zero_iff [of c rows] by auto

lemma sql_update_set: "r \<in> set (sql_update c f rows) \<Longrightarrow> \<exists>r0 \<in> set rows. r = (if c r0 then f r0 else r0)"
  by (auto simp: sql_update_def)

lemma sql_update_map_key:
  "(\<And>r. c r \<Longrightarrow> k (f r) = k r) \<Longrightarrow> map k (sql_update c f rows) = map k rows"
  by (induction rows) (auto simp: sql_update_def)

lemma sql_update_count_same:
  "(\<And>r. r \<in> set rows \<Longrightarrow> c r \<Longrightarrow> P (f r) = P r) \<Longrightarrow>
     length (filter P (sql_update c f rows)) = length (filter P rows)"
  by (induction rows) (auto simp: sql_update_def)

lemma sql_update_unico:
  assumes "distinct (map k rows)" and "i \<in> set rows" and "c i"
    and "\<And>r. c r \<Longrightarrow> k r = k i"
  shows "sql_update c f rows = map (\<lambda>r. if r = i then f r else r) rows"
proof -
  have "\<And>r. r \<in> set rows \<Longrightarrow> c r \<longleftrightarrow> r = i"
    using assms by (metis distinct_map inj_on_def)
  then show ?thesis by (simp add: sql_update_def)
qed

lemma troca_count:
  "distinct rows \<Longrightarrow> i \<in> set rows \<Longrightarrow> P i \<Longrightarrow> \<not> P y \<Longrightarrow>
     int (length (filter P (map (\<lambda>r. if r = i then y else r) rows))) = int (length (filter P rows)) - 1"
proof (induction rows)
  case Nil then show ?case by simp
next
  case (Cons a rows)
  show ?case
  proof (cases "a = i")
    case True
    then have "i \<notin> set rows" using Cons.prems by simp
    then have "map (\<lambda>r. if r = i then y else r) rows = rows"
      by (induction rows) auto
    then show ?thesis using True Cons.prems by simp
  next
    case False
    then show ?thesis using Cons by auto
  qed
qed

lemma chaves_ok_criar_evento: "chaves_ok db \<Longrightarrow> chaves_ok (snd (criar_evento db cap))"
proof -
  assume ok: "chaves_ok db"
  then have "seq_eventos db + 1 \<notin> set (map e_id (eventos db))"
    using limitado_D [of "seq_eventos db" "map e_id (eventos db)" "seq_eventos db + 1"]
    by (auto simp: chaves_ok_def)
  moreover have "limitado (seq_eventos db + 1) (map e_id (eventos db))"
    "limitado (seq_eventos db + 1) (map i_evento_id (inscricoes db))"
    using ok limitado_mono [of "seq_eventos db" _ "seq_eventos db + 1"]
    by (simp_all add: chaves_ok_def)
  ultimately show ?thesis using ok
    by (simp add: chaves_ok_def criar_evento_def Let_def limitado_snoc)
qed

lemma chaves_ok_inscrever:
  "chaves_ok db \<Longrightarrow> chaves_ok (snd (inscrever_participante db p e c))"
proof (cases "fst (inscrever_participante db p e c) \<in> {Evento_nao_encontrado, Sem_vagas, Ja_inscrito}")
  case True
  assume "chaves_ok db"
  moreover have "snd (inscrever_participante db p e c) = db"
    using True
    by (auto simp: inscrever_participante_def Let_def split: option.splits if_splits)
  ultimately show ?thesis by simp
next
  case False
  assume ok: "chaves_ok db"
  from False obtain ev where f: "find (\<lambda>x. e_id x = e) (eventos db) = Some ev"
    and np: "\<not> par_inscrito (inscricoes db) p e"
    by (auto simp: inscrever_participante_def Let_def split: option.splits if_splits)
  from f have "ev \<in> set (eventos db)" "e_id ev = e" using find_Some_D by fastforce+
  then have le: "e \<le> seq_eventos db"
    using ok limitado_D [of "seq_eventos db" "map e_id (eventos db)" e]
    by (auto simp: chaves_ok_def)
  have keys: "map e_id (sql_update (\<lambda>x. e_id x = e)
      (\<lambda>x. x\<lparr>e_vagas_disponiveis := e_vagas_disponiveis x - 1\<rparr>) (eventos db)) = map e_id (eventos db)"
    by (rule sql_update_map_key) simp
  have novo: "(p, e) \<notin> set (map par (inscricoes db))"
    using np by (auto simp: par_inscrito_def par_def)
  show ?thesis
    using False ok le keys novo
    by (auto simp: inscrever_participante_def Let_def chaves_ok_def par_def limitado_snoc
        split: option.splits if_splits)
qed

lemma chaves_ok_espera: "chaves_ok db \<Longrightarrow> chaves_ok (snd (adicionar_lista_espera db p e))"
  by (simp add: chaves_ok_def adicionar_lista_espera_def Let_def)

lemma chaves_ok_cancelar: "chaves_ok db \<Longrightarrow> chaves_ok (snd (cancelar_inscricao db p e))"
proof -
  assume ok: "chaves_ok db"
  have 1: "map e_id (sql_update (\<lambda>x. e_id x = e)
      (\<lambda>x. x\<lparr>e_vagas_disponiveis := e_vagas_disponiveis x + 1\<rparr>) (eventos db)) = map e_id (eventos db)"
    by (rule sql_update_map_key) simp
  have 2: "map par (sql_update (inscricao_confirmada_de p e)
      (\<lambda>i. i\<lparr>i_status := Cancelada\<rparr>) (inscricoes db)) = map par (inscricoes db)"
    by (rule sql_update_map_key) (simp add: par_def)
  have 3: "map i_evento_id (sql_update (inscricao_confirmada_de p e)
      (\<lambda>i. i\<lparr>i_status := Cancelada\<rparr>) (inscricoes db)) = map i_evento_id (inscricoes db)"
    by (rule sql_update_map_key) simp
  show ?thesis using ok 1 2 3
    by (simp add: chaves_ok_def cancelar_inscricao_def)
qed

lemma chaves_ok_checkin: "chaves_ok db \<Longrightarrow> chaves_ok (snd (realizar_checkin db c t))"
proof -
  assume ok: "chaves_ok db"
  have 2: "map par (sql_update (inscricao_confirmada_com c)
      (\<lambda>i. i\<lparr>i_presente := True, i_status := Presente, i_data_checkin := Some t\<rparr>) (inscricoes db))
       = map par (inscricoes db)"
    by (rule sql_update_map_key) (simp add: par_def)
  have 3: "map i_evento_id (sql_update (inscricao_confirmada_com c)
      (\<lambda>i. i\<lparr>i_presente := True, i_status := Presente, i_data_checkin := Some t\<rparr>) (inscricoes db))
       = map i_evento_id (inscricoes db)"
    by (rule sql_update_map_key) simp
  show ?thesis using ok 2 3
    by (simp add: chaves_ok_def realizar_checkin_def)
qed

lemma ativas_sem_inscricao:
  "e \<notin> set (map i_evento_id (inscricoes db)) \<Longrightarrow> inscricoes_ativas db e = 0"
  by (auto simp: inscricoes_ativas_def ocupa_vaga_def filter_empty_conv)

lemma ativas_cong: "inscricoes db' = inscricoes db \<Longrightarrow> inscricoes_ativas db' x = inscricoes_ativas db x"
  by (simp add: inscricoes_ativas_def)

lemma vagas_ok_cong:
  "eventos db' = eventos db \<Longrightarrow> (\<And>x. inscricoes_ativas db' x = inscricoes_ativas db x)
     \<Longrightarrow> vagas_ok db \<Longrightarrow> vagas_ok db'"
  unfolding vagas_ok_def by auto

lemma vagas_ok_criar_evento:
  assumes ok: "chaves_ok db" and v: "vagas_ok db"
  shows "vagas_ok (snd (criar_evento db cap))"
proof -
  let ?db' = "snd (criar_evento db cap)"
  have "seq_eventos db + 1 \<notin> set (map i_evento_id (inscricoes db))"
    using ok limitado_D [of "seq_eventos db" "map i_evento_id (inscricoes db)" "seq_eventos db + 1"]
    by (auto simp: chaves_ok_def)
  then have z: "inscricoes_ativas db (seq_eventos db + 1) = 0"
    by (rule ativas_sem_inscricao)
  have same: "\<And>x. inscricoes_ativas ?db' x = inscricoes_ativas db x"
    by (rule ativas_cong) (simp add: criar_evento_def Let_def)
  have evs: "eventos ?db' = eventos db @ [\<lparr>e_id = seq_eventos db + 1,
      e_capacidade_maxima = cap, e_vagas_disponiveis = cap\<rparr>]"
    by (simp add: criar_evento_def Let_def)
  show ?thesis
    unfolding vagas_ok_def same evs
  proof
    fix x assume "x \<in> set (eventos db @ [\<lparr>e_id = seq_eventos db + 1,
      e_capacidade_maxima = cap, e_vagas_disponiveis = cap\<rparr>])"
    then consider "x \<in> set (eventos db)"
      | "x = \<lparr>e_id = seq_eventos db + 1, e_capacidade_maxima = cap, e_vagas_disponiveis = cap\<rparr>"
      by auto
    then show "e_vagas_disponiveis x = e_capacidade_maxima x - inscricoes_ativas db (e_id x)
        \<and> (0 \<le> e_capacidade_maxima x \<longrightarrow> 0 \<le> e_vagas_disponiveis x)"
    proof cases
      case 1 then show ?thesis using v unfolding vagas_ok_def by blast
    next
      case 2 then show ?thesis using z by simp
    qed
  qed
qed

lemma vagas_ok_espera: "vagas_ok db \<Longrightarrow> vagas_ok (snd (adicionar_lista_espera db p e))"
  by (rule vagas_ok_cong [of _ db]) (simp_all add: adicionar_lista_espera_def Let_def inscricoes_ativas_def)

lemma vagas_ok_checkin: 
  assumes v: "vagas_ok db"
  shows "vagas_ok (snd (realizar_checkin db c t))"
proof (rule vagas_ok_cong [OF _ _ v])
  show "eventos (snd (realizar_checkin db c t)) = eventos db"
    by (simp add: realizar_checkin_def)
  fix x
  have "length (filter (ocupa_vaga x) (sql_update (inscricao_confirmada_com c)
          (\<lambda>i. i\<lparr>i_presente := True, i_status := Presente, i_data_checkin := Some t\<rparr>)
          (inscricoes db))) = length (filter (ocupa_vaga x) (inscricoes db))"
    by (rule sql_update_count_same) (simp add: ocupa_vaga_def inscricao_confirmada_com_def)
  then show "inscricoes_ativas (snd (realizar_checkin db c t)) x = inscricoes_ativas db x"
    by (simp add: inscricoes_ativas_def realizar_checkin_def)
qed

lemma vagas_ok_inscrever:
  assumes ok: "chaves_ok db" and v: "vagas_ok db"
  shows "vagas_ok (snd (inscrever_participante db p e c))"
proof (cases "fst (inscrever_participante db p e c) \<in> {Evento_nao_encontrado, Sem_vagas, Ja_inscrito}")
  case True
  then have "snd (inscrever_participante db p e c) = db"
    by (auto simp: inscrever_participante_def Let_def split: option.splits if_splits)
  then show ?thesis using v by simp
next
  case False
  then obtain ev where f: "find (\<lambda>x. e_id x = e) (eventos db) = Some ev"
    and pos: "0 < e_vagas_disponiveis ev"
    by (auto simp: inscrever_participante_def Let_def split: option.splits if_splits)
  let ?db' = "snd (inscrever_participante db p e c)"
  have ev: "eventos ?db' = sql_update (\<lambda>x. e_id x = e)
      (\<lambda>x. x\<lparr>e_vagas_disponiveis := e_vagas_disponiveis x - 1\<rparr>) (eventos db)"
    using False
    by (auto simp: inscrever_participante_def Let_def split: option.splits if_splits)
  have at: "\<And>x. inscricoes_ativas ?db' x = inscricoes_ativas db x + (if x = e then 1 else 0)"
    using False
    by (auto simp: inscrever_participante_def Let_def inscricoes_ativas_def ocupa_vaga_def
        split: option.splits if_splits)
  from f have evin: "ev \<in> set (eventos db)" "e_id ev = e" using find_Some_D by fastforce+
  have uniq: "\<And>x. x \<in> set (eventos db) \<Longrightarrow> e_id x = e \<Longrightarrow> x = ev"
    using ok evin by (auto simp: chaves_ok_def distinct_map inj_on_def)
  show ?thesis
    unfolding vagas_ok_def
  proof
    fix x assume "x \<in> set (eventos ?db')"
    then obtain x0 where x0: "x0 \<in> set (eventos db)"
      and xeq: "x = (if e_id x0 = e then x0\<lparr>e_vagas_disponiveis := e_vagas_disponiveis x0 - 1\<rparr> else x0)"
      unfolding ev using sql_update_set by fastforce
    have old: "e_vagas_disponiveis x0 = e_capacidade_maxima x0 - inscricoes_ativas db (e_id x0)"
      "0 \<le> e_capacidade_maxima x0 \<longrightarrow> 0 \<le> e_vagas_disponiveis x0"
      using v x0 by (auto simp: vagas_ok_def)
    show "e_vagas_disponiveis x = e_capacidade_maxima x - inscricoes_ativas ?db' (e_id x)
        \<and> (0 \<le> e_capacidade_maxima x \<longrightarrow> 0 \<le> e_vagas_disponiveis x)"
    proof (cases "e_id x0 = e")
      case True
      then have "x0 = ev" using uniq x0 by simp
      then show ?thesis using True xeq old pos at by simp
    next
      case False
      then show ?thesis using xeq old at by simp
    qed
  qed
qed

lemma vagas_ok_cancelar:
  assumes ok: "chaves_ok db" and v: "vagas_ok db"
  shows "vagas_ok (snd (cancelar_inscricao db p e))"
proof (cases "0 < rowcount (inscricao_confirmada_de p e) (inscricoes db)")
  case False
  then show ?thesis using v by (simp add: cancelar_inscricao_def)
next
  case True
  then obtain i where i: "i \<in> set (inscricoes db)" "inscricao_confirmada_de p e i"
    using rowcount_pos_iff [of "inscricao_confirmada_de p e" "inscricoes db"] by auto
  let ?db' = "snd (cancelar_inscricao db p e)"
  have ev: "eventos ?db' = sql_update (\<lambda>x. e_id x = e)
      (\<lambda>x. x\<lparr>e_vagas_disponiveis := e_vagas_disponiveis x + 1\<rparr>) (eventos db)"
    using True by (simp add: cancelar_inscricao_def)
  have ins: "inscricoes ?db' = sql_update (inscricao_confirmada_de p e)
      (\<lambda>i. i\<lparr>i_status := Cancelada\<rparr>) (inscricoes db)"
    using True by (simp add: cancelar_inscricao_def)
  have dm: "distinct (map par (inscricoes db))" using ok by (simp add: chaves_ok_def)
  then have d: "distinct (inscricoes db)" by (simp add: distinct_map)
  have ci: "\<And>r. inscricao_confirmada_de p e r \<Longrightarrow> par r = par i"
    using i(2) by (simp add: inscricao_confirmada_de_def par_def)
  have u: "sql_update (inscricao_confirmada_de p e) (\<lambda>i. i\<lparr>i_status := Cancelada\<rparr>) (inscricoes db)
       = map (\<lambda>r. if r = i then r\<lparr>i_status := Cancelada\<rparr> else r) (inscricoes db)"
    by (rule sql_update_unico [of par "inscricoes db" i "inscricao_confirmada_de p e", OF dm i(1) i(2) ci])
  have m: "map (\<lambda>r. if r = i then r\<lparr>i_status := Cancelada\<rparr> else r) (inscricoes db)
       = map (\<lambda>r. if r = i then i\<lparr>i_status := Cancelada\<rparr> else r) (inscricoes db)"
    by (rule map_cong) simp_all
  have ins2: "inscricoes ?db' = map (\<lambda>r. if r = i then i\<lparr>i_status := Cancelada\<rparr> else r) (inscricoes db)"
    unfolding ins u m ..
  have Pi: "ocupa_vaga e i"
    using i(2) by (simp add: ocupa_vaga_def inscricao_confirmada_de_def)
  have nPi: "\<not> ocupa_vaga e (i\<lparr>i_status := Cancelada\<rparr>)"
    by (simp add: ocupa_vaga_def)
  have at_e: "inscricoes_ativas ?db' e = inscricoes_ativas db e - 1"
    unfolding inscricoes_ativas_def ins2
    by (rule troca_count [of "inscricoes db" i "ocupa_vaga e" "i\<lparr>i_status := Cancelada\<rparr>", OF d i(1) Pi nPi])
  have at_o: "inscricoes_ativas ?db' x = inscricoes_ativas db x" if "x \<noteq> e" for x
  proof -
    have "length (filter (ocupa_vaga x) (sql_update (inscricao_confirmada_de p e)
        (\<lambda>i. i\<lparr>i_status := Cancelada\<rparr>) (inscricoes db)))
        = length (filter (ocupa_vaga x) (inscricoes db))"
      by (rule sql_update_count_same)
        (use that in \<open>simp add: ocupa_vaga_def inscricao_confirmada_de_def\<close>)
    then show ?thesis unfolding inscricoes_ativas_def ins by simp
  qed
  show ?thesis
    unfolding vagas_ok_def
  proof
    fix x assume "x \<in> set (eventos ?db')"
    then obtain x0 where x0: "x0 \<in> set (eventos db)"
      and xeq: "x = (if e_id x0 = e then x0\<lparr>e_vagas_disponiveis := e_vagas_disponiveis x0 + 1\<rparr> else x0)"
      unfolding ev using sql_update_set by fastforce
    have old: "e_vagas_disponiveis x0 = e_capacidade_maxima x0 - inscricoes_ativas db (e_id x0)"
      "0 \<le> e_capacidade_maxima x0 \<longrightarrow> 0 \<le> e_vagas_disponiveis x0"
      using v x0 by (auto simp: vagas_ok_def)
    show "e_vagas_disponiveis x = e_capacidade_maxima x - inscricoes_ativas ?db' (e_id x)
        \<and> (0 \<le> e_capacidade_maxima x \<longrightarrow> 0 \<le> e_vagas_disponiveis x)"
    proof (cases "e_id x0 = e")
      case True
      then show ?thesis using xeq old at_e by simp
    next
      case False
      then show ?thesis using xeq old at_o by simp
    qed
  qed
qed

lemmas avaliar =
  executar_todas_def banco_vazio_def criar_evento_def
  inscrever_participante_def adicionar_lista_espera_def cancelar_inscricao_def
  realizar_checkin_def sql_update_def rowcount_def par_inscrito_def codigo_usado_def
  par_em_espera_def proxima_posicao_def inscricao_confirmada_de_def
  inscricao_confirmada_com_def Let_def

lemma cenario_final: "executar_todas banco_vazio cenario = banco_cenario"
  by (simp add: cenario_def banco_cenario_def avaliar)

lemma cenario_dois_final: "executar_todas banco_vazio cenario_dois = banco_dois_eventos"
  by (simp add: cenario_dois_def banco_dois_eventos_def avaliar)

lemma inv_vazio: "chaves_ok banco_vazio \<and> vagas_ok banco_vazio"
  by (simp add: chaves_ok_def vagas_ok_def banco_vazio_def limitado_def)

lemma inv_executar:
  "chaves_ok db \<and> vagas_ok db \<Longrightarrow> chaves_ok (executar db c) \<and> vagas_ok (executar db c)"
  by (cases c)
    (simp_all add: chaves_ok_criar_evento chaves_ok_inscrever chaves_ok_espera
      chaves_ok_cancelar chaves_ok_checkin vagas_ok_criar_evento vagas_ok_inscrever
      vagas_ok_espera vagas_ok_cancelar vagas_ok_checkin)

lemma inv_executar_todas:
  "chaves_ok db \<and> vagas_ok db \<Longrightarrow>
     chaves_ok (executar_todas db cs) \<and> vagas_ok (executar_todas db cs)"
  unfolding executar_todas_def
proof (induction cs arbitrary: db)
  case Nil then show ?case by simp
next
  case (Cons c cs)
  have "chaves_ok (executar db c) \<and> vagas_ok (executar db c)"
    using Cons.prems by (rule inv_executar)
  then show ?case using Cons.IH [of "executar db c"] by simp
qed

lemma foldl_max_Max: "foldl max (a::int) xs = Max (set (a # xs))"
proof -
  have "foldl max a xs = fold max xs a"
    by (simp add: foldl_conv_fold max.commute)
  then show ?thesis by (simp only: Max.set_eq_fold)
qed

lemma proxima_posicao_vazia:
  "filter (\<lambda>l. l_evento_id l = e) rows = [] \<Longrightarrow> proxima_posicao rows e = 1"
  by (simp add: proxima_posicao_def)

lemma proxima_posicao_Max:
  assumes "filter (\<lambda>l. l_evento_id l = e) rows \<noteq> []"
  shows "proxima_posicao rows e = Max (l_posicao ` {l \<in> set rows. l_evento_id l = e}) + 1"
proof -
  obtain l ls where f: "filter (\<lambda>l. l_evento_id l = e) rows = l # ls"
    using assms by (cases "filter (\<lambda>l. l_evento_id l = e) rows") auto
  have "set (l_posicao l # map l_posicao ls) = l_posicao ` set (filter (\<lambda>l. l_evento_id l = e) rows)"
    unfolding f by simp
  also have "\<dots> = l_posicao ` {l \<in> set rows. l_evento_id l = e}"
    by simp
  finally have s: "set (l_posicao l # map l_posicao ls) = l_posicao ` {l \<in> set rows. l_evento_id l = e}" .
  have "proxima_posicao rows e = Max (set (l_posicao l # map l_posicao ls)) + 1"
    by (simp only: proxima_posicao_def f list.case foldl_max_Max)
  then show ?thesis by (simp only: s)
qed

lemma proxima_posicao_maior:
  assumes "l \<in> set rows" and "l_evento_id l = e"
  shows "l_posicao l < proxima_posicao rows e"
proof -
  have ne: "filter (\<lambda>l. l_evento_id l = e) rows \<noteq> []"
    using assms by (auto simp: filter_empty_conv)
  have "l_posicao l \<in> l_posicao ` {l \<in> set rows. l_evento_id l = e}"
    using assms by simp
  then have "l_posicao l \<le> Max (l_posicao ` {l \<in> set rows. l_evento_id l = e})"
    by (intro Max_ge) auto
  then show ?thesis using proxima_posicao_Max [OF ne] by simp
qed

lemma posicoes_distintas_espera:
  assumes "distinct (map chave_posicao (lista_espera db))"
  shows "distinct (map chave_posicao (lista_espera (snd (adicionar_lista_espera db p e))))"
proof (cases "par_em_espera (lista_espera db) p e")
  case True
  then show ?thesis using assms by (simp add: adicionar_lista_espera_def)
next
  case False
  have "(e, proxima_posicao (lista_espera db) e) \<notin> set (map chave_posicao (lista_espera db))"
  proof
    assume "(e, proxima_posicao (lista_espera db) e) \<in> set (map chave_posicao (lista_espera db))"
    then obtain l where l: "l \<in> set (lista_espera db)" "l_evento_id l = e"
      "l_posicao l = proxima_posicao (lista_espera db) e"
      by (auto simp: chave_posicao_def)
    then show False using proxima_posicao_maior [OF l(1) l(2)] by simp
  qed
  then show ?thesis using assms False
    by (simp add: adicionar_lista_espera_def Let_def chave_posicao_def)
qed

lemma lista_espera_inscrever:
  "lista_espera (snd (inscrever_participante db p e c)) = lista_espera db"
  by (simp add: inscrever_participante_def Let_def split: option.splits)

lemma posicoes_distintas_executar:
  assumes "distinct (map chave_posicao (lista_espera db))"
  shows "distinct (map chave_posicao (lista_espera (executar db c)))"
proof (cases c)
  case (Entrar_lista_espera p e)
  then show ?thesis using posicoes_distintas_espera [OF assms] by simp
next
  case (Inscrever p e k)
  then show ?thesis using assms by (simp add: lista_espera_inscrever)
qed (use assms in \<open>simp_all add: criar_evento_def Let_def cancelar_inscricao_def realizar_checkin_def\<close>)

lemma posicoes_distintas_todas:
  "distinct (map chave_posicao (lista_espera db)) \<Longrightarrow>
     distinct (map chave_posicao (lista_espera (executar_todas db cs)))"
  unfolding executar_todas_def
proof (induction cs arbitrary: db)
  case Nil then show ?case by simp
next
  case (Cons c cs)
  show ?case using Cons.IH [OF posicoes_distintas_executar [OF Cons.prems, of c]] by simp
qed

lemma codigo_usado_iff: "codigo_usado rows c \<longleftrightarrow> c \<in> set (map i_codigo_confirmacao rows)"
  unfolding codigo_usado_def by (simp add: image_iff) blast

lemma codigo_usado_update:
  assumes "\<And>r. cnd r \<Longrightarrow> i_codigo_confirmacao (f r) = i_codigo_confirmacao r"
  shows "codigo_usado (sql_update cnd f rows) c = codigo_usado rows c"
  unfolding codigo_usado_iff
  using sql_update_map_key [of cnd i_codigo_confirmacao f rows] assms by simp

lemma sem_confirmada_update:
  assumes a: "\<And>r. r \<in> set rows \<Longrightarrow> inscricao_confirmada_com c r \<Longrightarrow> cnd r"
    and n: "\<And>r. i_status (f r) \<noteq> Confirmada"
  shows "\<not> (\<exists>j \<in> set (sql_update cnd f rows). inscricao_confirmada_com c j)"
proof
  assume "\<exists>j \<in> set (sql_update cnd f rows). inscricao_confirmada_com c j"
  then obtain j where j: "j \<in> set (sql_update cnd f rows)" "inscricao_confirmada_com c j"
    by (rule bexE)
  from sql_update_set [OF j(1)]
  obtain r0 where r0: "r0 \<in> set rows" "j = (if cnd r0 then f r0 else r0)"
    by (rule bexE)
  show False
  proof (cases "cnd r0")
    case True
    then have "j = f r0" using r0(2) by simp
    then show False using j(2) n [of r0] by (simp add: inscricao_confirmada_com_def)
  next
    case False
    then have "j = r0" using r0(2) by simp
    then show False using a [OF r0(1)] j(2) False by simp
  qed
qed

lemma codigo_gasto_apos_checkin:
  assumes "fst (realizar_checkin db c t)"
  shows "codigo_gasto c (snd (realizar_checkin db c t))"
proof -
  let ?f = "\<lambda>i. i\<lparr>i_presente := True, i_status := Presente, i_data_checkin := Some t\<rparr>"
  have r: "0 < rowcount (inscricao_confirmada_com c) (inscricoes db)"
    using assms by (simp add: realizar_checkin_def split: if_splits)
  then obtain i where i: "i \<in> set (inscricoes db)" "inscricao_confirmada_com c i"
    using rowcount_pos_iff [of "inscricao_confirmada_com c" "inscricoes db"] by auto
  have "codigo_usado (inscricoes db) c"
    unfolding codigo_usado_def using i by (auto simp: inscricao_confirmada_com_def)
  then have a: "codigo_usado (sql_update (inscricao_confirmada_com c) ?f (inscricoes db)) c"
    by (simp add: codigo_usado_update)
  have b: "\<not> (\<exists>j \<in> set (sql_update (inscricao_confirmada_com c) ?f (inscricoes db)).
      inscricao_confirmada_com c j)"
    by (rule sem_confirmada_update) simp_all
  have e: "inscricoes (snd (realizar_checkin db c t))
      = sql_update (inscricao_confirmada_com c) ?f (inscricoes db)"
    using r by (simp add: realizar_checkin_def)
  show ?thesis unfolding codigo_gasto_def e using a b ..
qed

lemma codigo_gasto_cong:
  "inscricoes db' = inscricoes db \<Longrightarrow> codigo_gasto c db \<Longrightarrow> codigo_gasto c db'"
  by (simp add: codigo_gasto_def)

lemma codigo_gasto_update:
  assumes g: "codigo_gasto c db"
    and k: "\<And>r. i_codigo_confirmacao (f r) = i_codigo_confirmacao r"
    and n: "\<And>r. i_status (f r) \<noteq> Confirmada"
    and e: "inscricoes db' = sql_update cnd f (inscricoes db)"
  shows "codigo_gasto c db'"
proof -
  have a: "codigo_usado (sql_update cnd f (inscricoes db)) c"
    using g k by (simp add: codigo_usado_update codigo_gasto_def)
  have "\<And>r. r \<in> set (inscricoes db) \<Longrightarrow> inscricao_confirmada_com c r \<Longrightarrow> cnd r"
    using g unfolding codigo_gasto_def by blast
  then have b: "\<not> (\<exists>j \<in> set (sql_update cnd f (inscricoes db)). inscricao_confirmada_com c j)"
    using n by (rule sem_confirmada_update)
  show ?thesis unfolding codigo_gasto_def e using a b ..
qed

lemma codigo_gasto_inscrever:
  assumes g: "codigo_gasto c db"
  shows "codigo_gasto c (snd (inscrever_participante db p e k))"
proof (cases "fst (inscrever_participante db p e k) \<in> {Evento_nao_encontrado, Sem_vagas, Ja_inscrito}")
  case True
  then have "snd (inscrever_participante db p e k) = db"
    by (auto simp: inscrever_participante_def Let_def split: option.splits if_splits)
  then show ?thesis using g by simp
next
  case False
  then have nu: "\<not> codigo_usado (inscricoes db) k"
    by (auto simp: inscrever_participante_def Let_def split: option.splits if_splits)
  then have ne: "k \<noteq> c" using g by (auto simp: codigo_gasto_def)
  have ins: "inscricoes (snd (inscrever_participante db p e k)) = inscricoes db @
        [\<lparr>i_id = seq_inscricoes db + 1, i_participante_id = p, i_evento_id = e,
          i_status = Confirmada, i_codigo_confirmacao = k, i_presente = False,
          i_data_checkin = None\<rparr>]"
    using False
    by (auto simp: inscrever_participante_def Let_def split: option.splits if_splits)
  show ?thesis
    using g ne unfolding codigo_gasto_def ins
    by (auto simp: codigo_usado_def inscricao_confirmada_com_def)
qed

lemma codigo_gasto_executar:
  assumes g: "codigo_gasto c db"
  shows "codigo_gasto c (executar db x)"
proof (cases x)
  case (Criar_evento n)
  show ?thesis unfolding Criar_evento
    by (rule codigo_gasto_cong [OF _ g]) (simp add: criar_evento_def Let_def)
next
  case (Inscrever p e k)
  show ?thesis unfolding Inscrever using codigo_gasto_inscrever [OF g] by simp
next
  case (Entrar_lista_espera p e)
  show ?thesis unfolding Entrar_lista_espera
    by (rule codigo_gasto_cong [OF _ g]) (simp add: adicionar_lista_espera_def Let_def)
next
  case (Cancelar p e)
  show ?thesis
  proof (cases "0 < rowcount (inscricao_confirmada_de p e) (inscricoes db)")
    case True
    show ?thesis unfolding Cancelar
      by (rule codigo_gasto_update [OF g, of "\<lambda>i. i\<lparr>i_status := Cancelada\<rparr>" _
            "inscricao_confirmada_de p e"])
        (use True in \<open>simp_all add: cancelar_inscricao_def\<close>)
  next
    case False
    then show ?thesis unfolding Cancelar using g by (simp add: cancelar_inscricao_def)
  qed
next
  case (Checkin k t)
  show ?thesis
  proof (cases "0 < rowcount (inscricao_confirmada_com k) (inscricoes db)")
    case True
    show ?thesis unfolding Checkin
      by (rule codigo_gasto_update [OF g,
            of "\<lambda>i. i\<lparr>i_presente := True, i_status := Presente, i_data_checkin := Some t\<rparr>" _
            "inscricao_confirmada_com k"])
        (use True in \<open>simp_all add: realizar_checkin_def\<close>)
  next
    case False
    then show ?thesis unfolding Checkin using g by (simp add: realizar_checkin_def)
  qed
qed

lemma codigo_gasto_todas:
  "codigo_gasto c db \<Longrightarrow> codigo_gasto c (executar_todas db cs)"
  unfolding executar_todas_def
proof (induction cs arbitrary: db)
  case Nil then show ?case by simp
next
  case (Cons x cs)
  show ?case using Cons.IH [OF codigo_gasto_executar [OF Cons.prems, of x]] by simp
qed

lemma checkin_codigo_gasto:
  assumes "codigo_gasto c db"
  shows "realizar_checkin db c t = (False, db)"
proof -
  have "\<not> 0 < rowcount (inscricao_confirmada_com c) (inscricoes db)"
    using assms rowcount_pos_iff [of "inscricao_confirmada_com c" "inscricoes db"]
    by (simp add: codigo_gasto_def)
  then show ?thesis by (simp add: realizar_checkin_def)
qed

lemma find_sql_update:
  assumes "\<And>r. P (f r) = P r"
  shows "find P (sql_update P f rows) = map_option f (find P rows)"
  using assms by (induction rows) (simp_all add: sql_update_def)

section \<open>Capacity\<close>

text \<open>
  Claim C1 as stated does not hold. \<^verbatim>\<open>criar_evento\<close> stores whatever capacity it
  is given, and the schema has no \<^verbatim>\<open>CHECK\<close> on \<^verbatim>\<open>capacidade_maxima\<close>: an event
  created with capacity -1 has -1 free places, and its places taken (0) exceed its
  capacity.
\<close>

theorem vagas_invariante_counterexample:
  "eventos (executar_todas banco_vazio [Criar_evento (- 1)])
     = [\<lparr>e_id = 1, e_capacidade_maxima = - 1, e_vagas_disponiveis = - 1\<rparr>]
   \<and> e_vagas_disponiveis \<lparr>e_id = 1, e_capacidade_maxima = - 1, e_vagas_disponiveis = - 1\<rparr> < 0
   \<and> \<not> confirmed_count \<lparr>e_id = 1, e_capacidade_maxima = - 1, e_vagas_disponiveis = - 1\<rparr>
         \<le> e_capacidade_maxima
             \<lparr>e_id = 1, e_capacidade_maxima = - 1, e_vagas_disponiveis = - 1\<rparr>"
  by (simp add: avaliar confirmed_count_def)

text \<open>
  Claim C1, amended. In every state reached from the empty database by any sequence of
  event creations, enrolments, waiting-list joins, cancellations and check-ins, and for
  every event: the number of places taken (capacity minus free places) is the number of
  the event's enrolments that are confirmed or attended, it is never negative, and the
  free places are the capacity minus that number. For every event whose capacity is not
  negative, moreover, the places taken never exceed the capacity and the free places
  are never negative.
\<close>

theorem vagas_invariante:
  "ev \<in> set (eventos (executar_todas banco_vazio cs)) \<Longrightarrow>
     confirmed_count ev = inscricoes_ativas (executar_todas banco_vazio cs) (e_id ev)
     \<and> 0 \<le> confirmed_count ev
     \<and> e_vagas_disponiveis ev
         = e_capacidade_maxima ev - inscricoes_ativas (executar_todas banco_vazio cs) (e_id ev)
     \<and> (0 \<le> e_capacidade_maxima ev \<longrightarrow>
           confirmed_count ev \<le> e_capacidade_maxima ev \<and> 0 \<le> e_vagas_disponiveis ev)"
proof -
  assume m: "ev \<in> set (eventos (executar_todas banco_vazio cs))"
  have "vagas_ok (executar_todas banco_vazio cs)"
    using inv_executar_todas [OF inv_vazio, of cs] by simp
  then have v: "e_vagas_disponiveis ev
         = e_capacidade_maxima ev - inscricoes_ativas (executar_todas banco_vazio cs) (e_id ev)"
    and p: "0 \<le> e_capacidade_maxima ev \<longrightarrow> 0 \<le> e_vagas_disponiveis ev"
    using m unfolding vagas_ok_def by blast+
  have n: "0 \<le> inscricoes_ativas (executar_todas banco_vazio cs) (e_id ev)"
    by (simp add: inscricoes_ativas_def)
  show ?thesis using v p n by (simp add: confirmed_count_def)
qed

theorem vagas_invariante_witness:
  "\<lparr>e_id = 1, e_capacidade_maxima = 2, e_vagas_disponiveis = 1\<rparr>
      \<in> set (eventos (executar_todas banco_vazio cenario))
   \<and> confirmed_count \<lparr>e_id = 1, e_capacidade_maxima = 2, e_vagas_disponiveis = 1\<rparr> = 1
   \<and> inscricoes_ativas (executar_todas banco_vazio cenario) 1 = 1"
proof -
  have m: "\<lparr>e_id = 1, e_capacidade_maxima = 2, e_vagas_disponiveis = 1\<rparr>
      \<in> set (eventos (executar_todas banco_vazio cenario))"
    by (simp add: cenario_final banco_cenario_def)
  show ?thesis
    using m vagas_invariante [OF m] by (simp add: confirmed_count_def)
qed

text \<open>
  Claim C4. Enrolling in an existing event that has no free place returns
  \<^verbatim>\<open>'lista_espera'\<close> and leaves every table as it was: no enrolment is created and
  the free places of no event change.
\<close>

theorem inscrever_sem_vagas:
  assumes "distinct (map e_id (eventos db))" and "ev \<in> set (eventos db)"
    and "e_vagas_disponiveis ev \<le> 0"
  shows "inscrever_participante db participante (e_id ev) codigo = (Sem_vagas, db)
     \<and> valor_retornado (fst (inscrever_participante db participante (e_id ev) codigo))
           = PStr ''lista_espera''"
  using assms by (simp add: inscrever_participante_def find_id_unico)

theorem inscrever_sem_vagas_witness:
  "inscrever_participante
     \<lparr>eventos = [\<lparr>e_id = 1, e_capacidade_maxima = 1, e_vagas_disponiveis = 0\<rparr>],
      inscricoes = [\<lparr>i_id = 1, i_participante_id = 10, i_evento_id = 1,
         i_status = Confirmada, i_codigo_confirmacao = ''AAAAAAAAA1'', i_presente = False,
         i_data_checkin = None\<rparr>],
      lista_espera = [], seq_eventos = 1, seq_inscricoes = 1, seq_lista_espera = 0\<rparr>
     11 1 ''AAAAAAAAA2''
   = (Sem_vagas,
     \<lparr>eventos = [\<lparr>e_id = 1, e_capacidade_maxima = 1, e_vagas_disponiveis = 0\<rparr>],
      inscricoes = [\<lparr>i_id = 1, i_participante_id = 10, i_evento_id = 1,
         i_status = Confirmada, i_codigo_confirmacao = ''AAAAAAAAA1'', i_presente = False,
         i_data_checkin = None\<rparr>],
      lista_espera = [], seq_eventos = 1, seq_inscricoes = 1, seq_lista_espera = 0\<rparr>)"
  using inscrever_sem_vagas
    [of "\<lparr>eventos = [\<lparr>e_id = 1, e_capacidade_maxima = 1, e_vagas_disponiveis = 0\<rparr>],
      inscricoes = [\<lparr>i_id = 1, i_participante_id = 10, i_evento_id = 1,
         i_status = Confirmada, i_codigo_confirmacao = ''AAAAAAAAA1'', i_presente = False,
         i_data_checkin = None\<rparr>],
      lista_espera = [], seq_eventos = 1, seq_inscricoes = 1, seq_lista_espera = 0\<rparr>"
     "\<lparr>e_id = 1, e_capacidade_maxima = 1, e_vagas_disponiveis = 0\<rparr>" 11 "''AAAAAAAAA2''"]
  by simp

section \<open>Enrolment\<close>

text \<open>
  Claim C10. Whenever \<^verbatim>\<open>inscrever_participante\<close> fails, whatever the cause (event
  not found, no free place, or the \<^verbatim>\<open>INSERT\<close> refused because the pair or the code
  is already there), the tables are left as they were: no enrolment is created and the
  free places do not change.
\<close>

theorem inscrever_falha_atomica:
  "fst (inscrever_participante db p e c) \<in> {Evento_nao_encontrado, Sem_vagas, Ja_inscrito}
   \<Longrightarrow> snd (inscrever_participante db p e c) = db"
  by (auto simp: inscrever_participante_def Let_def split: option.splits if_splits)

theorem inscrever_falha_atomica_witness:
  "fst (inscrever_participante banco_cenario 13 1 ''AAAAAAAAA2'') = Ja_inscrito
   \<and> snd (inscrever_participante banco_cenario 13 1 ''AAAAAAAAA2'') = banco_cenario
   \<and> fst (inscrever_participante banco_cenario 13 7 ''AAAAAAAAA4'') = Evento_nao_encontrado
   \<and> snd (inscrever_participante banco_cenario 13 7 ''AAAAAAAAA4'') = banco_cenario"
proof -
  have a: "fst (inscrever_participante banco_cenario 13 1 ''AAAAAAAAA2'') = Ja_inscrito"
    by (simp add: banco_cenario_def avaliar)
  have b: "fst (inscrever_participante banco_cenario 13 7 ''AAAAAAAAA4'') = Evento_nao_encontrado"
    by (simp add: banco_cenario_def avaliar)
  show ?thesis
    using a b inscrever_falha_atomica [of banco_cenario 13 1 "''AAAAAAAAA2''"]
      inscrever_falha_atomica [of banco_cenario 13 7 "''AAAAAAAAA4''"]
    by simp
qed

text \<open>
  Claim C3 as stated does not hold. The \<^verbatim>\<open>UNIQUE(participante_id, evento_id)\<close>
  constraint does not look at the status, so a pair whose only enrolment is cancelled
  is refused like any other; and the test for free places comes before the
  \<^verbatim>\<open>INSERT\<close>, so the second of two consecutive calls for one pair on an event with
  a single place is answered with \<^verbatim>\<open>'lista_espera'\<close>, although a confirmed
  enrolment of the pair exists.
\<close>

theorem inscrever_conflito_counterexample:
  "fst (inscrever_participante banco_cenario 10 1 ''AAAAAAAAA4'') = Ja_inscrito
   \<and> \<not> (\<exists>i \<in> set (inscricoes banco_cenario).
          i_participante_id i = 10 \<and> i_evento_id i = 1 \<and> i_status i \<noteq> Cancelada)
   \<and> fst (inscrever_participante
          (executar_todas banco_vazio [Criar_evento 1, Inscrever 10 1 ''AAAAAAAAA1''])
          10 1 ''AAAAAAAAA2'') = Sem_vagas
   \<and> (\<exists>i \<in> set (inscricoes
          (executar_todas banco_vazio [Criar_evento 1, Inscrever 10 1 ''AAAAAAAAA1''])).
          i_participante_id i = 10 \<and> i_evento_id i = 1 \<and> i_status i \<noteq> Cancelada)"
  by (simp add: banco_cenario_def avaliar)

text \<open>
  Claim C3, amended. \<^verbatim>\<open>inscrever_participante\<close> ends in the conflict outcome
  (\<^verbatim>\<open>IntegrityError\<close>) exactly when the event exists, has a free place, and either
  an enrolment of the pair exists in any status or the generated code is already in
  use. The second of two consecutive calls for one pair, the first having succeeded,
  ends in the conflict outcome when the event had more than one free place and in
  \<^verbatim>\<open>'lista_espera'\<close> otherwise. A pair whose enrolment is cancelled is refused
  with the conflict outcome when the event has a free place.
\<close>

theorem inscrever_conflito:
  "(fst (inscrever_participante db p e c) = Ja_inscrito \<longleftrightarrow>
      (\<exists>ev. find (\<lambda>x. e_id x = e) (eventos db) = Some ev \<and> 0 < e_vagas_disponiveis ev)
      \<and> (par_inscrito (inscricoes db) p e \<or> codigo_usado (inscricoes db) c))
   \<and> (fst (inscrever_participante db p e c) = Inscrito n \<longrightarrow>
        fst (inscrever_participante (snd (inscrever_participante db p e c)) p e c')
          = (if \<exists>ev. find (\<lambda>x. e_id x = e) (eventos db) = Some ev
                  \<and> 1 < e_vagas_disponiveis ev
             then Ja_inscrito else Sem_vagas))
   \<and> (i \<in> set (inscricoes db) \<and> i_status i = Cancelada
        \<and> find (\<lambda>x. e_id x = i_evento_id i) (eventos db) = Some ev
        \<and> 0 < e_vagas_disponiveis ev \<longrightarrow>
        fst (inscrever_participante db (i_participante_id i) (i_evento_id i) c) = Ja_inscrito)"
proof (intro conjI impI)
  show a: "\<And>db p e c. fst (inscrever_participante db p e c) = Ja_inscrito \<longleftrightarrow>
      (\<exists>ev. find (\<lambda>x. e_id x = e) (eventos db) = Some ev \<and> 0 < e_vagas_disponiveis ev)
      \<and> (par_inscrito (inscricoes db) p e \<or> codigo_usado (inscricoes db) c)"
    by (auto simp: inscrever_participante_def Let_def split: option.splits)
next
  assume h: "i \<in> set (inscricoes db) \<and> i_status i = Cancelada
        \<and> find (\<lambda>x. e_id x = i_evento_id i) (eventos db) = Some ev
        \<and> 0 < e_vagas_disponiveis ev"
  then have "par_inscrito (inscricoes db) (i_participante_id i) (i_evento_id i)"
    unfolding par_inscrito_def by blast
  then show "fst (inscrever_participante db (i_participante_id i) (i_evento_id i) c) = Ja_inscrito"
    using h by (simp add: inscrever_participante_def)
next
  assume s: "fst (inscrever_participante db p e c) = Inscrito n"
  then obtain ev where f: "find (\<lambda>x. e_id x = e) (eventos db) = Some ev"
    and v: "0 < e_vagas_disponiveis ev"
    by (auto simp: inscrever_participante_def Let_def split: option.splits if_splits)
  let ?db' = "snd (inscrever_participante db p e c)"
  have ok: "\<not> (par_inscrito (inscricoes db) p e \<or> codigo_usado (inscricoes db) c)"
    using s f v by (auto simp: inscrever_participante_def Let_def split: if_splits)
  have evs: "eventos ?db' = sql_update (\<lambda>x. e_id x = e)
      (\<lambda>x. x\<lparr>e_vagas_disponiveis := e_vagas_disponiveis x - 1\<rparr>) (eventos db)"
    and ins: "inscricoes ?db' = inscricoes db @
        [\<lparr>i_id = seq_inscricoes db + 1, i_participante_id = p, i_evento_id = e,
          i_status = Confirmada, i_codigo_confirmacao = c, i_presente = False,
          i_data_checkin = None\<rparr>]"
    using f v ok by (simp_all add: inscrever_participante_def Let_def)
  have f': "find (\<lambda>x. e_id x = e) (eventos ?db')
      = Some (ev\<lparr>e_vagas_disponiveis := e_vagas_disponiveis ev - 1\<rparr>)"
    unfolding evs
    using find_sql_update [of "\<lambda>x. e_id x = e"
        "\<lambda>x. x\<lparr>e_vagas_disponiveis := e_vagas_disponiveis x - 1\<rparr>" "eventos db"] f
    by simp
  have p': "par_inscrito (inscricoes ?db') p e"
    unfolding ins par_inscrito_def by simp
  show "fst (inscrever_participante ?db' p e c')
          = (if \<exists>ev. find (\<lambda>x. e_id x = e) (eventos db) = Some ev
                  \<and> 1 < e_vagas_disponiveis ev
             then Ja_inscrito else Sem_vagas)"
    using f f' p' v
    by (simp add: inscrever_participante_def [of ?db'])
qed

theorem inscrever_conflito_witness:
  "fst (inscrever_participante banco_dois_eventos 10 2 ''AAAAAAAAA4'') = Ja_inscrito
   \<and> fst (inscrever_participante
          (snd (inscrever_participante banco_dois_eventos 13 2 ''AAAAAAAAA4''))
          13 2 ''AAAAAAAAA5'') = Ja_inscrito
   \<and> fst (inscrever_participante banco_cenario 10 1 ''AAAAAAAAA4'') = Ja_inscrito"
proof (intro conjI)
  have "(\<exists>ev. find (\<lambda>x. e_id x = 2) (eventos banco_dois_eventos) = Some ev
          \<and> 0 < e_vagas_disponiveis ev)
      \<and> (par_inscrito (inscricoes banco_dois_eventos) 10 2
          \<or> codigo_usado (inscricoes banco_dois_eventos) ''AAAAAAAAA4'')"
    by (simp add: banco_dois_eventos_def par_inscrito_def)
  then show "fst (inscrever_participante banco_dois_eventos 10 2 ''AAAAAAAAA4'') = Ja_inscrito"
    by (rule inscrever_conflito [where db = banco_dois_eventos and p = 10 and e = 2
          and c = "''AAAAAAAAA4''", THEN conjunct1, THEN iffD2])
next
  have s: "fst (inscrever_participante banco_dois_eventos 13 2 ''AAAAAAAAA4'') = Inscrito 4"
    by (simp add: banco_dois_eventos_def avaliar)
  have v: "\<exists>ev. find (\<lambda>x. e_id x = 2) (eventos banco_dois_eventos) = Some ev
      \<and> 1 < e_vagas_disponiveis ev"
    by (simp add: banco_dois_eventos_def)
  show "fst (inscrever_participante
          (snd (inscrever_participante banco_dois_eventos 13 2 ''AAAAAAAAA4''))
          13 2 ''AAAAAAAAA5'') = Ja_inscrito"
    using inscrever_conflito [where db = banco_dois_eventos and p = 13 and e = 2
          and c = "''AAAAAAAAA4''" and n = 4 and c' = "''AAAAAAAAA5''",
          THEN conjunct2, THEN conjunct1, rule_format, OF s]
    unfolding if_P [OF v] .
next
  have h: "\<lparr>i_id = 1, i_participante_id = 10, i_evento_id = 1, i_status = Cancelada,
         i_codigo_confirmacao = ''AAAAAAAAA1'', i_presente = False, i_data_checkin = None\<rparr>
       \<in> set (inscricoes banco_cenario)
     \<and> i_status \<lparr>i_id = 1, i_participante_id = 10, i_evento_id = 1, i_status = Cancelada,
         i_codigo_confirmacao = ''AAAAAAAAA1'', i_presente = False, i_data_checkin = None\<rparr>
       = Cancelada
     \<and> find (\<lambda>x. e_id x = i_evento_id \<lparr>i_id = 1, i_participante_id = 10, i_evento_id = 1,
         i_status = Cancelada, i_codigo_confirmacao = ''AAAAAAAAA1'', i_presente = False,
         i_data_checkin = None\<rparr>) (eventos banco_cenario)
       = Some \<lparr>e_id = 1, e_capacidade_maxima = 2, e_vagas_disponiveis = 1\<rparr>
     \<and> 0 < e_vagas_disponiveis \<lparr>e_id = 1, e_capacidade_maxima = 2, e_vagas_disponiveis = 1\<rparr>"
    by (simp add: banco_cenario_def)
  show "fst (inscrever_participante banco_cenario 10 1 ''AAAAAAAAA4'') = Ja_inscrito"
    using inscrever_conflito [where db = banco_cenario and c = "''AAAAAAAAA4''"
          and i = "\<lparr>i_id = 1, i_participante_id = 10, i_evento_id = 1, i_status = Cancelada,
            i_codigo_confirmacao = ''AAAAAAAAA1'', i_presente = False, i_data_checkin = None\<rparr>"
          and ev = "\<lparr>e_id = 1, e_capacidade_maxima = 2, e_vagas_disponiveis = 1\<rparr>",
          THEN conjunct2, THEN conjunct2, rule_format, OF h]
    by simp
qed

section \<open>Cancellation\<close>

text \<open>
  Claim C7. When the pair has no confirmed enrolment (none at all, or only one that is
  already cancelled or attended), \<^verbatim>\<open>cancelar_inscricao\<close> returns \<^verbatim>\<open>False\<close> and
  leaves every table as it was.
\<close>

theorem cancelar_sem_confirmada:
  "\<not> (\<exists>i \<in> set (inscricoes db). inscricao_confirmada_de p e i)
   \<Longrightarrow> cancelar_inscricao db p e = (False, db)"
  using rowcount_pos_iff [of "inscricao_confirmada_de p e" "inscricoes db"]
  by (simp add: cancelar_inscricao_def)

theorem cancelar_sem_confirmada_witness:
  "cancelar_inscricao banco_cenario 10 1 = (False, banco_cenario)
   \<and> cancelar_inscricao banco_cenario 11 1 = (False, banco_cenario)
   \<and> cancelar_inscricao banco_cenario 12 1 = (False, banco_cenario)"
proof -
  have "\<not> (\<exists>i \<in> set (inscricoes banco_cenario). inscricao_confirmada_de 10 1 i)"
    "\<not> (\<exists>i \<in> set (inscricoes banco_cenario). inscricao_confirmada_de 11 1 i)"
    "\<not> (\<exists>i \<in> set (inscricoes banco_cenario). inscricao_confirmada_de 12 1 i)"
    by (simp_all add: banco_cenario_def inscricao_confirmada_de_def)
  then show ?thesis
    using cancelar_sem_confirmada [of banco_cenario 10 1]
      cancelar_sem_confirmada [of banco_cenario 11 1]
      cancelar_sem_confirmada [of banco_cenario 12 1]
    by simp
qed

text \<open>
  Claim C8. Cancelling a confirmed enrolment succeeds, sets the status of that enrolment
  to cancelled and adds exactly one free place to its event; every other enrolment,
  every other event and the waiting list are as before. The hypothesis on the pairs is
  the \<^verbatim>\<open>UNIQUE(participante_id, evento_id)\<close> constraint of the table.
\<close>

theorem cancelar_libera_uma_vaga:
  assumes u: "distinct (map par (inscricoes db))"
    and m: "i \<in> set (inscricoes db)" and s: "i_status i = Confirmada"
  shows "cancelar_inscricao db (i_participante_id i) (i_evento_id i) =
     (True,
      db\<lparr>inscricoes :=
            map (\<lambda>j. if j = i then j\<lparr>i_status := Cancelada\<rparr> else j) (inscricoes db),
          eventos :=
            map (\<lambda>ev. if e_id ev = i_evento_id i
                       then ev\<lparr>e_vagas_disponiveis := e_vagas_disponiveis ev + 1\<rparr> else ev)
              (eventos db)\<rparr>)"
proof -
  let ?c = "inscricao_confirmada_de (i_participante_id i) (i_evento_id i)"
  have ci: "?c i" using s by (simp add: inscricao_confirmada_de_def)
  have k: "\<And>r. ?c r \<Longrightarrow> par r = par i"
    by (simp add: inscricao_confirmada_de_def par_def)
  have r: "0 < rowcount ?c (inscricoes db)"
    using rowcount_pos_iff [of ?c "inscricoes db"] m ci by auto
  have up: "sql_update ?c (\<lambda>i. i\<lparr>i_status := Cancelada\<rparr>) (inscricoes db)
      = map (\<lambda>j. if j = i then j\<lparr>i_status := Cancelada\<rparr> else j) (inscricoes db)"
    by (rule sql_update_unico [of par "inscricoes db" i ?c, OF u m ci k])
  show ?thesis
    using r by (simp add: cancelar_inscricao_def up) (simp add: sql_update_def)
qed

theorem cancelar_libera_uma_vaga_witness:
  "cancelar_inscricao banco_dois_eventos 10 1 =
     (True,
      banco_dois_eventos\<lparr>
        inscricoes :=
         [\<lparr>i_id = 1, i_participante_id = 10, i_evento_id = 1, i_status = Cancelada,
           i_codigo_confirmacao = ''AAAAAAAAA1'', i_presente = False, i_data_checkin = None\<rparr>,
          \<lparr>i_id = 2, i_participante_id = 11, i_evento_id = 1, i_status = Confirmada,
           i_codigo_confirmacao = ''AAAAAAAAA2'', i_presente = False, i_data_checkin = None\<rparr>,
          \<lparr>i_id = 3, i_participante_id = 10, i_evento_id = 2, i_status = Confirmada,
           i_codigo_confirmacao = ''AAAAAAAAA3'', i_presente = False, i_data_checkin = None\<rparr>],
        eventos :=
         [\<lparr>e_id = 1, e_capacidade_maxima = 2, e_vagas_disponiveis = 1\<rparr>,
          \<lparr>e_id = 2, e_capacidade_maxima = 5, e_vagas_disponiveis = 4\<rparr>]\<rparr>)"
proof -
  have u: "distinct (map par (inscricoes banco_dois_eventos))"
    by (simp add: banco_dois_eventos_def par_def)
  have m: "\<lparr>i_id = 1, i_participante_id = 10, i_evento_id = 1, i_status = Confirmada,
         i_codigo_confirmacao = ''AAAAAAAAA1'', i_presente = False, i_data_checkin = None\<rparr>
       \<in> set (inscricoes banco_dois_eventos)"
    by (simp add: banco_dois_eventos_def)
  show ?thesis
    using cancelar_libera_uma_vaga [OF u m] by (simp add: banco_dois_eventos_def)
qed




section \<open>Waiting list\<close>

text \<open>
  Claim C9. A successful \<^verbatim>\<open>adicionar_lista_espera\<close> appends one entry whose position
  is the largest position among the entries of that event plus one, or 1 when the event
  has no entry; and in every state reached from the empty database no two entries of
  one event have the same position.
\<close>

theorem posicao_na_lista_espera:
  "(fst (adicionar_lista_espera db p e) \<longrightarrow>
      adicionar_lista_espera db p e =
        (True,
         db\<lparr>lista_espera := lista_espera db @
               [\<lparr>l_id = seq_lista_espera db + 1, l_participante_id = p, l_evento_id = e,
                 l_posicao =
                   (if {l \<in> set (lista_espera db). l_evento_id l = e} = {} then 1
                    else Max (l_posicao ` {l \<in> set (lista_espera db). l_evento_id l = e}) + 1),
                 l_notificado = False\<rparr>],
             seq_lista_espera := seq_lista_espera db + 1\<rparr>))
   \<and> distinct (map chave_posicao (lista_espera (executar_todas banco_vazio cs)))"
proof
  show "distinct (map chave_posicao (lista_espera (executar_todas banco_vazio cs)))"
    by (rule posicoes_distintas_todas) (simp add: banco_vazio_def)
  have pp: "proxima_posicao (lista_espera db) e =
      (if {l \<in> set (lista_espera db). l_evento_id l = e} = {} then 1
       else Max (l_posicao ` {l \<in> set (lista_espera db). l_evento_id l = e}) + 1)"
  proof (cases "filter (\<lambda>l. l_evento_id l = e) (lista_espera db) = []")
    case True
    then have "{l \<in> set (lista_espera db). l_evento_id l = e} = {}"
      by (auto simp: filter_empty_conv)
    then show ?thesis using proxima_posicao_vazia [OF True] by simp
  next
    case False
    then have ne: "{l \<in> set (lista_espera db). l_evento_id l = e} \<noteq> {}"
      by (auto simp: filter_empty_conv)
    show ?thesis unfolding proxima_posicao_Max [OF False] if_not_P [OF ne] ..
  qed
  show "fst (adicionar_lista_espera db p e) \<longrightarrow>
      adicionar_lista_espera db p e =
        (True,
         db\<lparr>lista_espera := lista_espera db @
               [\<lparr>l_id = seq_lista_espera db + 1, l_participante_id = p, l_evento_id = e,
                 l_posicao =
                   (if {l \<in> set (lista_espera db). l_evento_id l = e} = {} then 1
                    else Max (l_posicao ` {l \<in> set (lista_espera db). l_evento_id l = e}) + 1),
                 l_notificado = False\<rparr>],
             seq_lista_espera := seq_lista_espera db + 1\<rparr>)"
    unfolding pp [symmetric]
    by (simp add: adicionar_lista_espera_def Let_def)
qed

theorem posicao_na_lista_espera_witness:
  "adicionar_lista_espera banco_cenario 13 1 =
     (True,
      banco_cenario\<lparr>lista_espera := lista_espera banco_cenario @
          [\<lparr>l_id = 2, l_participante_id = 13, l_evento_id = 1, l_posicao = 2,
            l_notificado = False\<rparr>],
        seq_lista_espera := 2\<rparr>)
   \<and> distinct (map chave_posicao (lista_espera (executar_todas banco_vazio
        (cenario @ [Entrar_lista_espera 13 1, Entrar_lista_espera 12 2]))))"
proof -
  have f: "fst (adicionar_lista_espera banco_cenario 13 1)"
    by (simp add: banco_cenario_def avaliar)
  have s: "{l \<in> set (lista_espera banco_cenario). l_evento_id l = 1}
      = {\<lparr>l_id = 1, l_participante_id = 12, l_evento_id = 1, l_posicao = 1,
           l_notificado = False\<rparr>}"
    by (auto simp: banco_cenario_def)
  have q: "seq_lista_espera banco_cenario = 1"
    by (simp add: banco_cenario_def)
  show ?thesis
    using f posicao_na_lista_espera [of banco_cenario 13 1
        "cenario @ [Entrar_lista_espera 13 1, Entrar_lista_espera 12 2]"]
    by (simp add: s q)
qed

section \<open>Check-in\<close>

text \<open>
  Claim C5. A check-in with the code of a confirmed enrolment succeeds, marks that
  enrolment (and no other) as attended and records the time; and once a check-in with
  a code has succeeded, a check-in with the same code fails in every later state,
  whatever calls were made in between. The hypothesis on the codes is the
  \<^verbatim>\<open>UNIQUE\<close> constraint on \<^verbatim>\<open>codigo_confirmacao\<close>.
\<close>

theorem checkin_exatamente_uma_vez:
  "(distinct (map i_codigo_confirmacao (inscricoes db)) \<and> i \<in> set (inscricoes db)
      \<and> i_codigo_confirmacao i = c \<and> i_status i = Confirmada \<longrightarrow>
      realizar_checkin db c agora =
        (True,
         db\<lparr>inscricoes :=
               map (\<lambda>j. if j = i
                     then j\<lparr>i_presente := True, i_status := Presente,
                            i_data_checkin := Some agora\<rparr>
                     else j) (inscricoes db)\<rparr>))
   \<and> (fst (realizar_checkin db c agora) \<longrightarrow>
        realizar_checkin (executar_todas (snd (realizar_checkin db c agora)) cs) c depois
          = (False, executar_todas (snd (realizar_checkin db c agora)) cs))"
proof (intro conjI impI)
  assume "fst (realizar_checkin db c agora)"
  then have "codigo_gasto c (executar_todas (snd (realizar_checkin db c agora)) cs)"
    by (intro codigo_gasto_todas codigo_gasto_apos_checkin)
  then show "realizar_checkin (executar_todas (snd (realizar_checkin db c agora)) cs) c depois
          = (False, executar_todas (snd (realizar_checkin db c agora)) cs)"
    by (rule checkin_codigo_gasto)
next
  assume h: "distinct (map i_codigo_confirmacao (inscricoes db)) \<and> i \<in> set (inscricoes db)
      \<and> i_codigo_confirmacao i = c \<and> i_status i = Confirmada"
  let ?f = "\<lambda>i. i\<lparr>i_presente := True, i_status := Presente, i_data_checkin := Some agora\<rparr>"
  have d: "distinct (map i_codigo_confirmacao (inscricoes db))" and m: "i \<in> set (inscricoes db)"
    using h by simp_all
  have ci: "inscricao_confirmada_com c i"
    using h by (simp add: inscricao_confirmada_com_def)
  have k: "\<And>r. inscricao_confirmada_com c r \<Longrightarrow> i_codigo_confirmacao r = i_codigo_confirmacao i"
    using h by (simp add: inscricao_confirmada_com_def)
  have r: "0 < rowcount (inscricao_confirmada_com c) (inscricoes db)"
    using rowcount_pos_iff [of "inscricao_confirmada_com c" "inscricoes db"] m ci by auto
  have up: "sql_update (inscricao_confirmada_com c) ?f (inscricoes db)
      = map (\<lambda>j. if j = i then ?f j else j) (inscricoes db)"
    by (rule sql_update_unico [of i_codigo_confirmacao "inscricoes db" i
          "inscricao_confirmada_com c", OF d m ci k])
  show "realizar_checkin db c agora =
        (True,
         db\<lparr>inscricoes :=
               map (\<lambda>j. if j = i
                     then j\<lparr>i_presente := True, i_status := Presente,
                            i_data_checkin := Some agora\<rparr>
                     else j) (inscricoes db)\<rparr>)"
    using r by (simp add: realizar_checkin_def up)
qed

theorem checkin_exatamente_uma_vez_witness:
  "realizar_checkin banco_dois_eventos ''AAAAAAAAA2'' ''2024-05-01 19:00:00'' =
     (True,
      banco_dois_eventos\<lparr>inscricoes :=
       [\<lparr>i_id = 1, i_participante_id = 10, i_evento_id = 1, i_status = Confirmada,
         i_codigo_confirmacao = ''AAAAAAAAA1'', i_presente = False, i_data_checkin = None\<rparr>,
        \<lparr>i_id = 2, i_participante_id = 11, i_evento_id = 1, i_status = Presente,
         i_codigo_confirmacao = ''AAAAAAAAA2'', i_presente = True,
         i_data_checkin = Some ''2024-05-01 19:00:00''\<rparr>,
        \<lparr>i_id = 3, i_participante_id = 10, i_evento_id = 2, i_status = Confirmada,
         i_codigo_confirmacao = ''AAAAAAAAA3'', i_presente = False, i_data_checkin = None\<rparr>]\<rparr>)
   \<and> fst (realizar_checkin
        (executar_todas
          (snd (realizar_checkin banco_dois_eventos ''AAAAAAAAA2'' ''2024-05-01 19:00:00''))
          [Cancelar 11 1, Inscrever 11 1 ''AAAAAAAAA2'', Inscrever 13 2 ''AAAAAAAAA2''])
        ''AAAAAAAAA2'' ''2024-05-01 19:05:00'') = False"
proof -
  note T = checkin_exatamente_uma_vez [of banco_dois_eventos
        "\<lparr>i_id = 2, i_participante_id = 11, i_evento_id = 1, i_status = Confirmada,
         i_codigo_confirmacao = ''AAAAAAAAA2'', i_presente = False, i_data_checkin = None\<rparr>"
        "''AAAAAAAAA2''" "''2024-05-01 19:00:00''"
        "[Cancelar 11 1, Inscrever 11 1 ''AAAAAAAAA2'', Inscrever 13 2 ''AAAAAAAAA2'']"
        "''2024-05-01 19:05:00''"]
  have t: "realizar_checkin banco_dois_eventos ''AAAAAAAAA2'' ''2024-05-01 19:00:00'' =
     (True, banco_dois_eventos\<lparr>inscricoes :=
       map (\<lambda>j. if j = \<lparr>i_id = 2, i_participante_id = 11, i_evento_id = 1,
             i_status = Confirmada, i_codigo_confirmacao = ''AAAAAAAAA2'', i_presente = False,
             i_data_checkin = None\<rparr>
             then j\<lparr>i_presente := True, i_status := Presente,
                    i_data_checkin := Some ''2024-05-01 19:00:00''\<rparr>
             else j) (inscricoes banco_dois_eventos)\<rparr>)"
    by (rule T [THEN conjunct1, rule_format]) (simp add: banco_dois_eventos_def)
  have l: "map (\<lambda>j. if j = \<lparr>i_id = 2, i_participante_id = 11, i_evento_id = 1,
             i_status = Confirmada, i_codigo_confirmacao = ''AAAAAAAAA2'', i_presente = False,
             i_data_checkin = None\<rparr>
             then j\<lparr>i_presente := True, i_status := Presente,
                    i_data_checkin := Some ''2024-05-01 19:00:00''\<rparr>
             else j) (inscricoes banco_dois_eventos) =
       [\<lparr>i_id = 1, i_participante_id = 10, i_evento_id = 1, i_status = Confirmada,
         i_codigo_confirmacao = ''AAAAAAAAA1'', i_presente = False, i_data_checkin = None\<rparr>,
        \<lparr>i_id = 2, i_participante_id = 11, i_evento_id = 1, i_status = Presente,
         i_codigo_confirmacao = ''AAAAAAAAA2'', i_presente = True,
         i_data_checkin = Some ''2024-05-01 19:00:00''\<rparr>,
        \<lparr>i_id = 3, i_participante_id = 10, i_evento_id = 2, i_status = Confirmada,
         i_codigo_confirmacao = ''AAAAAAAAA3'', i_presente = False, i_data_checkin = None\<rparr>]"
    by (simp add: banco_dois_eventos_def)
  have t': "fst (realizar_checkin banco_dois_eventos ''AAAAAAAAA2'' ''2024-05-01 19:00:00'')"
    unfolding t by simp
  have u: "realizar_checkin (executar_todas
          (snd (realizar_checkin banco_dois_eventos ''AAAAAAAAA2'' ''2024-05-01 19:00:00''))
          [Cancelar 11 1, Inscrever 11 1 ''AAAAAAAAA2'', Inscrever 13 2 ''AAAAAAAAA2''])
          ''AAAAAAAAA2'' ''2024-05-01 19:05:00''
        = (False, executar_todas
          (snd (realizar_checkin banco_dois_eventos ''AAAAAAAAA2'' ''2024-05-01 19:00:00''))
          [Cancelar 11 1, Inscrever 11 1 ''AAAAAAAAA2'', Inscrever 13 2 ''AAAAAAAAA2''])"
    by (rule T [THEN conjunct2, rule_format]) (rule t')
  show ?thesis
    unfolding u unfolding t l by simp
qed

text \<open>
  Claim C6 as stated does not hold. \<^verbatim>\<open>realizar_checkin\<close> has a single failure
  branch: a code that matches nothing, the code of an attended enrolment and the code
  of a cancelled enrolment all give the same return value, the same message and the
  same (unchanged) tables.
\<close>

theorem checkin_falhas_counterexample:
  "\<not> codigo_usado (inscricoes banco_cenario) ''ZZZZZZZZZZ''
   \<and> (\<exists>i \<in> set (inscricoes banco_cenario).
         i_codigo_confirmacao i = ''AAAAAAAAA2'' \<and> i_status i = Presente)
   \<and> (\<exists>i \<in> set (inscricoes banco_cenario).
         i_codigo_confirmacao i = ''AAAAAAAAA1'' \<and> i_status i = Cancelada)
   \<and> realizar_checkin banco_cenario ''ZZZZZZZZZZ'' ''2024-05-01 20:00:00''
       = (False, banco_cenario)
   \<and> realizar_checkin banco_cenario ''AAAAAAAAA2'' ''2024-05-01 20:00:00''
       = (False, banco_cenario)
   \<and> realizar_checkin banco_cenario ''AAAAAAAAA1'' ''2024-05-01 20:00:00''
       = (False, banco_cenario)"
  by (simp add: banco_cenario_def avaliar)

text \<open>
  Claim C6, amended. \<^verbatim>\<open>realizar_checkin\<close> fails in one and the same way, returning
  \<^verbatim>\<open>False\<close> and changing nothing, whenever no confirmed enrolment carries the
  code: whether no enrolment matches, or the matching enrolment is attended, or it is
  cancelled.
\<close>

theorem checkin_falha_unica:
  "\<not> (\<exists>i \<in> set (inscricoes db). i_codigo_confirmacao i = c \<and> i_status i = Confirmada)
   \<Longrightarrow> realizar_checkin db c agora = (False, db)"
  using rowcount_pos_iff [of "inscricao_confirmada_com c" "inscricoes db"]
  by (simp add: realizar_checkin_def inscricao_confirmada_com_def)

theorem checkin_falha_unica_witness:
  "realizar_checkin banco_dois_eventos ''AAAAAAAAA9'' ''2024-05-01 20:00:00''
     = (False, banco_dois_eventos)
   \<and> realizar_checkin
        (snd (cancelar_inscricao banco_dois_eventos 10 1)) ''AAAAAAAAA1'' ''2024-05-01 20:00:00''
     = (False, snd (cancelar_inscricao banco_dois_eventos 10 1))
   \<and> realizar_checkin
        (snd (realizar_checkin banco_dois_eventos ''AAAAAAAAA3'' ''2024-05-01 19:00:00''))
        ''AAAAAAAAA3'' ''2024-05-01 20:00:00''
     = (False, snd (realizar_checkin banco_dois_eventos ''AAAAAAAAA3'' ''2024-05-01 19:00:00''))"
proof -
  have a: "\<not> (\<exists>i \<in> set (inscricoes banco_dois_eventos).
      i_codigo_confirmacao i = ''AAAAAAAAA9'' \<and> i_status i = Confirmada)"
    by (simp add: banco_dois_eventos_def)
  have b: "\<not> (\<exists>i \<in> set (inscricoes (snd (cancelar_inscricao banco_dois_eventos 10 1))).
      i_codigo_confirmacao i = ''AAAAAAAAA1'' \<and> i_status i = Confirmada)"
    by (simp add: banco_dois_eventos_def avaliar)
  have c: "\<not> (\<exists>i \<in> set (inscricoes
        (snd (realizar_checkin banco_dois_eventos ''AAAAAAAAA3'' ''2024-05-01 19:00:00''))).
      i_codigo_confirmacao i = ''AAAAAAAAA3'' \<and> i_status i = Confirmada)"
    by (simp add: banco_dois_eventos_def avaliar)
  show ?thesis
    using checkin_falha_unica [OF a] checkin_falha_unica [OF b] checkin_falha_unica [OF c]
    by (intro conjI)
qed

end
